theory Spec2Isabelle
  imports Complex_Main "HOL-Library.Word"
begin

unbundle bit_operations_syntax

section \<open>The document tree (libxml2's \<open>xmlNode\<close> and \<open>xmlDoc\<close>)\<close>

text \<open>
  \<open>system_fonts.cpp\<close> walks a tree built by libxml2. From an \<open>xmlNode\<close> it reads
  \<open>name\<close>, \<open>children\<close>, \<open>next\<close>, \<open>parent\<close> and, through \<open>xmlGetProp\<close>, the
  attributes. The tree is never modified, so it is a value: an element with its name,
  its attributes in document order and its children, or a text node. A text node's
  \<open>name\<close> is the fixed string \<open>text\<close> in libxml2.
\<close>

datatype xmlNode =
    Element string "(string \<times> string) list" "xmlNode list"
  | Text string

fun node_name :: "xmlNode \<Rightarrow> string" where
  "node_name (Element n _ _) = n"
| "node_name (Text _) = ''text''"

fun node_children :: "xmlNode \<Rightarrow> xmlNode list" where
  "node_children (Element _ _ cs) = cs"
| "node_children (Text _) = []"

fun node_properties :: "xmlNode \<Rightarrow> (string \<times> string) list" where
  "node_properties (Element _ ps _) = ps"
| "node_properties (Text _) = []"

text \<open>
  An \<open>xmlDoc\<close>: the root element (\<open>xmlDocGetRootElement\<close> returns null when there is
  none) and the document's own \<open>parent\<close> link, which \<open>copyFont\<close> reads.
\<close>

record xmlDoc =
  doc_root :: "xmlNode option"
  doc_parent :: "xmlNode option"

text \<open>
  An \<open>xmlNode*\<close> into the document is the path of child indexes that leads from the
  root element to the node; the null pointer is \<open>None\<close>. \<open>node_at\<close> reads the node
  a pointer denotes.
\<close>

type_synonym node_ptr = "nat list"

fun subnode :: "xmlNode \<Rightarrow> node_ptr \<Rightarrow> xmlNode option" where
  "subnode n [] = Some n"
| "subnode n (i # p) =
     (if i < length (node_children n) then subnode (node_children n ! i) p else None)"

definition node_at :: "xmlDoc \<Rightarrow> node_ptr \<Rightarrow> xmlNode option" where
  "node_at doc p = (case doc_root doc of None \<Rightarrow> None | Some r \<Rightarrow> subnode r p)"

definition parent_ptr :: "node_ptr \<Rightarrow> node_ptr" where
  "parent_ptr p = butlast p"

definition xmlDocGetRootElement :: "xmlDoc \<Rightarrow> node_ptr option" where
  "xmlDocGetRootElement doc = (case doc_root doc of None \<Rightarrow> None | Some _ \<Rightarrow> Some [])"

text \<open>
  \<open>xmlGetProp\<close>: the value of an attribute, or null when the node has no such
  attribute. A text node has no attributes.
\<close>

definition node_prop :: "xmlNode \<Rightarrow> string \<Rightarrow> string option" where
  "node_prop n a = map_of (node_properties n) a"

definition xmlGetProp :: "xmlDoc \<Rightarrow> node_ptr \<Rightarrow> string \<Rightarrow> string option" where
  "xmlGetProp doc node a = (case node_at doc node of None \<Rightarrow> None | Some n \<Rightarrow> node_prop n a)"

text \<open>
  \<open>xmlNodeListGetString\<close> on a child list: the contents of its text nodes, in order;
  elements contribute nothing.
\<close>

fun node_text :: "xmlNode \<Rightarrow> string" where
  "node_text (Text s) = s"
| "node_text (Element _ _ _) = []"

definition xmlNodeListGetString :: "xmlNode list \<Rightarrow> string" where
  "xmlNodeListGetString cs = concat (map node_text cs)"

definition xmlStrEqual :: "string \<Rightarrow> string \<Rightarrow> bool" where
  "xmlStrEqual a b = (a = b)"

section \<open>\<open>firstElement\<close> and \<open>nextSibling\<close>\<close>

text \<open>
  Both loops of the source follow \<open>next\<close> links through one child list until a node
  with the wanted name is found: \<open>firstElement\<close> from \<open>node->children\<close>,
  \<open>nextSibling\<close> from \<open>node->next\<close>. \<open>scan_from cs tag i\<close> is that loop over the
  child list \<open>cs\<close>, started at position \<open>i\<close>.
\<close>

function scan_from :: "xmlNode list \<Rightarrow> string \<Rightarrow> nat \<Rightarrow> nat option" where
  "scan_from cs tag i =
     (if i < length cs
      then (if node_name (cs ! i) = tag then Some i else scan_from cs tag (Suc i))
      else None)"
  by pat_completeness auto
termination
  by (relation "measure (\<lambda>(cs, tag, i). length cs - i)") auto

declare scan_from.simps [simp del]

definition firstElement :: "xmlDoc \<Rightarrow> node_ptr \<Rightarrow> string \<Rightarrow> node_ptr option" where
  "firstElement doc node tag =
     (case node_at doc node of
        None \<Rightarrow> None
      | Some n \<Rightarrow> map_option (\<lambda>i. node @ [i]) (scan_from (node_children n) tag 0))"

definition nextSibling :: "xmlDoc \<Rightarrow> node_ptr \<Rightarrow> string \<Rightarrow> node_ptr option" where
  "nextSibling doc node tag =
     (if node = [] then None
      else case node_at doc (parent_ptr node) of
        None \<Rightarrow> None
      | Some par \<Rightarrow>
          map_option (\<lambda>i. parent_ptr node @ [i])
            (scan_from (node_children par) tag (Suc (last node))))"

definition FAMILY_TAG :: string where "FAMILY_TAG = ''family''"
definition FONT_TAG :: string where "FONT_TAG = ''font''"

section \<open>The C library: \<open>strtol\<close> and \<open>strtod\<close>\<close>

text \<open>
  The C library is not part of the sources; \<open>strtol\<close> and \<open>strtod\<close> are modelled
  from ISO C (7.22.1.4 and 7.22.1.3) in the C locale, with a null end pointer as the
  source passes it. Characters are bytes.
\<close>

definition isspace :: "char \<Rightarrow> bool" where
  "isspace c = (of_char c \<in> {32, 9, 10, 11, 12, 13 :: int})"

definition isdigit :: "char \<Rightarrow> bool" where
  "isdigit c = (48 \<le> (of_char c :: int) \<and> (of_char c :: int) \<le> 57)"

definition isxdigit :: "char \<Rightarrow> bool" where
  "isxdigit c = (isdigit c \<or> (65 \<le> (of_char c :: int) \<and> (of_char c :: int) \<le> 70)
                 \<or> (97 \<le> (of_char c :: int) \<and> (of_char c :: int) \<le> 102))"

definition tolower :: "char \<Rightarrow> char" where
  "tolower c = (if 65 \<le> (of_char c :: int) \<and> (of_char c :: int) \<le> 90
                then char_of ((of_char c :: int) + 32) else c)"

text \<open>The value of a decimal or hexadecimal digit.\<close>

definition digit_value :: "char \<Rightarrow> int" where
  "digit_value c = (if isdigit c then of_char c - 48
                    else if 97 \<le> (of_char c :: int) then of_char c - 87
                    else of_char c - 55)"

definition digits_value :: "int \<Rightarrow> string \<Rightarrow> int" where
  "digits_value b ds = foldl (\<lambda>a c. b * a + digit_value c) 0 ds"

text \<open>An optional sign: whether it is a minus, and the rest of the input.\<close>

fun take_sign :: "string \<Rightarrow> bool \<times> string" where
  "take_sign [] = (False, [])"
| "take_sign (c # r) =
     (if c = CHR ''-'' then (True, r) else if c = CHR ''+'' then (False, r) else (False, c # r))"

text \<open>
  \<open>long\<close> has 64 bits (LP64, the 64-bit Android ABIs). Out-of-range values are clamped
  to \<open>LONG_MIN\<close> and \<open>LONG_MAX\<close>.
\<close>

definition LONG_MAX :: int where "LONG_MAX = 2 ^ 63 - 1"
definition LONG_MIN :: int where "LONG_MIN = - (2 ^ 63)"

text \<open>
  \<open>strtol(s, nullptr, 10)\<close>: white space, an optional sign, then the longest run of
  decimal digits. With no digit there is no conversion and the result is 0.
\<close>

definition strtol :: "string \<Rightarrow> int" where
  "strtol s =
     (let (neg, u) = take_sign (dropWhile isspace s);
          v = digits_value 10 (takeWhile isdigit u)
      in if neg then max LONG_MIN (- v) else min LONG_MAX v)"

subsection \<open>Binary floating point\<close>

text \<open>
  A \<open>double\<close> or \<open>float\<close> value: a finite number \<open>\<plusminus> m * 2 ^ e\<close> with its sign
  (\<open>True\<close> is negative) and \<open>m\<close> not negative, an infinity, or a NaN.
\<close>

datatype c_fp = Finite bool int int | Infinite bool | NaN

definition fp_value :: "c_fp \<Rightarrow> rat option" where
  "fp_value x =
     (case x of
        Finite s m e \<Rightarrow>
          Some ((if s then - 1 else 1) * of_int m *
                (if 0 \<le> e then 2 ^ nat e else 1 / 2 ^ nat (- e)))
      | Infinite _ \<Rightarrow> None
      | NaN \<Rightarrow> None)"

text \<open>The number of binary digits of a positive number.\<close>

function bit_length :: "int \<Rightarrow> int" where
  "bit_length n = (if n \<le> 0 then 0 else 1 + bit_length (n div 2))"
  by pat_completeness auto
termination
  by (relation "measure nat") auto

declare bit_length.simps [simp del]

text \<open>
  \<open>ilog2 num den\<close> is the integer part of the binary logarithm of \<open>num / den\<close>, for
  positive \<open>num\<close> and \<open>den\<close>.
\<close>

definition ilog2 :: "int \<Rightarrow> int \<Rightarrow> int" where
  "ilog2 num den =
     (let d = bit_length num - bit_length den
      in if (if 0 \<le> d then den * 2 ^ nat d \<le> num else den \<le> num * 2 ^ nat (- d))
         then d else d - 1)"

text \<open>\<open>num / den\<close> rounded to the nearest integer, ties to even.\<close>

definition round_even :: "int \<Rightarrow> int \<Rightarrow> int" where
  "round_even num den =
     (let q = num div den; r = num mod den
      in if 2 * r < den then q
         else if den < 2 * r then q + 1
         else if even q then q else q + 1)"

text \<open>
  \<open>round_fp p emin emax s num den\<close>: the value \<open>num / den\<close> with sign \<open>s\<close>, rounded to
  nearest (ties to even) in the binary format with \<open>p\<close> significand bits and exponents
  from \<open>emin\<close> to \<open>emax\<close>; too large a value becomes an infinity.
\<close>

definition round_fp :: "nat \<Rightarrow> int \<Rightarrow> int \<Rightarrow> bool \<Rightarrow> int \<Rightarrow> int \<Rightarrow> c_fp" where
  "round_fp p emin emax s num den =
     (if num = 0 then Finite s 0 (emin - int p + 1)
      else
        let lg = ilog2 num den;
            e = max lg emin - int p + 1;
            m = (if 0 \<le> e then round_even num (den * 2 ^ nat e)
                 else round_even (num * 2 ^ nat (- e)) den)
        in if emax < lg then Infinite s
           else if m = 2 ^ p
           then (if emax < e + int p then Infinite s else Finite s (2 ^ (p - 1)) (e + 1))
           else Finite s m e)"

definition to_double :: "bool \<Rightarrow> int \<Rightarrow> int \<Rightarrow> c_fp" where
  "to_double s num den = round_fp 53 (- 1022) 1023 s num den"

text \<open>The conversion of a \<open>double\<close> to \<open>float\<close>, as in \<open>float styleValue = strtod(...)\<close>.\<close>

definition float_of_double :: "c_fp \<Rightarrow> c_fp" where
  "float_of_double x =
     (case x of
        Finite s m e \<Rightarrow>
          (if 0 \<le> e then round_fp 24 (- 126) 127 s (m * 2 ^ nat e) 1
           else round_fp 24 (- 126) 127 s m (2 ^ nat (- e)))
      | Infinite s \<Rightarrow> Infinite s
      | NaN \<Rightarrow> NaN)"

subsection \<open>\<open>strtod\<close>\<close>

text \<open>
  The digits of a number in the given class of digits: the digits before the radix
  point, the digits after it, and the rest of the input.
\<close>

definition split_number :: "(char \<Rightarrow> bool) \<Rightarrow> string \<Rightarrow> string \<times> string \<times> string" where
  "split_number dig u =
     (let ip = takeWhile dig u; r1 = dropWhile dig u
      in case r1 of
           [] \<Rightarrow> (ip, [], [])
         | c # r \<Rightarrow>
             if c = CHR ''.'' then (ip, takeWhile dig r, dropWhile dig r)
             else (ip, [], r1))"

text \<open>
  An exponent part: the marker (\<open>e\<close> or \<open>p\<close>, in either case), an optional sign and at
  least one decimal digit; anything else is no exponent part.
\<close>

definition exponent_part :: "char \<Rightarrow> string \<Rightarrow> int" where
  "exponent_part marker r =
     (case r of
        [] \<Rightarrow> 0
      | c # r' \<Rightarrow>
          if tolower c = marker
          then (let (neg, ds) = take_sign r'; ex = takeWhile isdigit ds
                in if ex = [] then 0
                   else if neg then - digits_value 10 ex else digits_value 10 ex)
          else 0)"

text \<open>\<open>m * b ^ k\<close> as a \<open>double\<close>.\<close>

definition scaled :: "bool \<Rightarrow> int \<Rightarrow> int \<Rightarrow> int \<Rightarrow> c_fp" where
  "scaled s m b k =
     (if 0 \<le> k then to_double s (m * b ^ nat k) 1 else to_double s m (b ^ nat (- k)))"

definition decimal_number :: "bool \<Rightarrow> string \<Rightarrow> c_fp option" where
  "decimal_number s u =
     (let (ip, fp, r) = split_number isdigit u
      in if ip = [] \<and> fp = [] then None
         else Some (scaled s (digits_value 10 (ip @ fp)) 10
                      (exponent_part (CHR ''e'') r - int (length fp))))"

definition hex_number :: "bool \<Rightarrow> string \<Rightarrow> c_fp option" where
  "hex_number s u =
     (case u of
        z # x # v \<Rightarrow>
          if z = CHR ''0'' \<and> tolower x = CHR ''x''
          then (let (ip, fp, r) = split_number isxdigit v
                in if ip = [] \<and> fp = [] then None
                   else Some (scaled s (digits_value 16 (ip @ fp)) 2
                                (exponent_part (CHR ''p'') r - 4 * int (length fp))))
          else None
      | _ \<Rightarrow> None)"

text \<open>
  \<open>strtod(s, nullptr)\<close>: white space, an optional sign, then an infinity, a NaN, a
  hexadecimal or a decimal number. With none of them there is no conversion and the
  result is zero.
\<close>

definition strtod :: "string \<Rightarrow> c_fp" where
  "strtod str =
     (let (s, u) = take_sign (dropWhile isspace str); l = map tolower u
      in if take 3 l = ''inf'' then Infinite s
         else if take 3 l = ''nan'' then NaN
         else case hex_number s u of
                Some x \<Rightarrow> x
              | None \<Rightarrow> (case decimal_number s u of Some x \<Rightarrow> x | None \<Rightarrow> Finite False 0 (- 1074)))"

section \<open>The structures of \<open>system_fonts.cpp\<close>\<close>

record ASystemFontIterator =
  mXmlDoc :: "xmlDoc option"
  mFontNode :: "node_ptr option"

record ASystemFont =
  mFilePath :: string
  mLocale :: "string option"
  mWeight :: "16 word"
  mItalic :: bool
  mCollectionIndex :: "32 word"
  mAxes :: "(32 word \<times> c_fp) list"

section \<open>\<open>xmlTrim\<close>\<close>

definition XML_SPACES :: string where
  "XML_SPACES = [CHR 0x20, CHR 0x0D, CHR 0x0A, CHR 0x09]"

fun find_first_not_of :: "string \<Rightarrow> string \<Rightarrow> nat option" where
  "find_first_not_of [] cs = None"
| "find_first_not_of (c # r) cs =
     (if c \<in> set cs then map_option Suc (find_first_not_of r cs) else Some 0)"

definition find_last_not_of :: "string \<Rightarrow> string \<Rightarrow> nat option" where
  "find_last_not_of s cs = map_option (\<lambda>i. length s - 1 - i) (find_first_not_of (rev s) cs)"

definition substr :: "string \<Rightarrow> nat \<Rightarrow> nat \<Rightarrow> string" where
  "substr s pos n = take n (drop pos s)"

definition xmlTrim :: "string \<Rightarrow> string" where
  "xmlTrim inp =
     (if inp = [] then inp
      else case find_first_not_of inp XML_SPACES of
        None \<Rightarrow> []
      | Some start \<Rightarrow>
          (case find_last_not_of inp XML_SPACES of
             None \<Rightarrow> []
           | Some endpos \<Rightarrow> substr inp start (endpos - start + 1)))"

section \<open>\<open>copyFont\<close>\<close>

definition AXIS_TAG :: string where "AXIS_TAG = ''axis''"

text \<open>
  The tag of an axis: the four bytes of the attribute, the first in the most
  significant position. Each byte is an \<open>unsigned char\<close>, promoted, shifted and
  converted to \<open>uint32_t\<close>.
\<close>

definition axis_tag :: "string \<Rightarrow> 32 word" where
  "axis_tag tagStr =
     push_bit 24 (of_char (tagStr ! 0)) OR push_bit 16 (of_char (tagStr ! 1)) OR
     push_bit 8 (of_char (tagStr ! 2)) OR of_char (tagStr ! 3)"

text \<open>
  One round of the loop over the \<open>axis\<close> children: the two \<open>continue\<close> statements
  leave the list as it is, otherwise a pair is pushed at the back.
\<close>

definition axis_step :: "xmlDoc \<Rightarrow> node_ptr \<Rightarrow> (32 word \<times> c_fp) list \<Rightarrow> (32 word \<times> c_fp) list" where
  "axis_step doc axis axes =
     (case xmlGetProp doc axis ''tag'' of
        None \<Rightarrow> axes
      | Some tagStr \<Rightarrow>
          if length tagStr \<noteq> 4 then axes
          else (case xmlGetProp doc axis ''stylevalue'' of
                  None \<Rightarrow> axes
                | Some styleValueStr \<Rightarrow>
                    axes @ [(axis_tag tagStr, float_of_double (strtod styleValueStr))]))"

text \<open>The number of siblings that follow a node: what the sibling loops count down.\<close>

definition siblings_left :: "xmlDoc \<Rightarrow> node_ptr \<Rightarrow> nat" where
  "siblings_left doc node =
     (case node_at doc (parent_ptr node) of
        None \<Rightarrow> 0
      | Some par \<Rightarrow> length (node_children par) - last node)"

lemma scan_from_bounds:
  "scan_from cs tag i = Some k \<Longrightarrow> i \<le> k \<and> k < length cs"
proof (induction cs tag i rule: scan_from.induct)
  case (1 cs tag i)
  show ?case
  proof (cases "i < length cs \<and> node_name (cs ! i) \<noteq> tag")
    case True
    with "1.prems" have "scan_from cs tag (Suc i) = Some k"
      by (subst (asm) scan_from.simps) simp
    with "1.IH" True show ?thesis by simp
  next
    case False
    with "1.prems" show ?thesis
      by (subst (asm) scan_from.simps) (auto split: if_splits)
  qed
qed

lemma nextSibling_siblings_left:
  assumes "nextSibling doc node tag = Some q"
  shows "siblings_left doc q < siblings_left doc node"
proof -
  from assms obtain par k where
    par: "node_at doc (parent_ptr node) = Some par" and
    k: "scan_from (node_children par) tag (Suc (last node)) = Some k" and
    q: "q = parent_ptr node @ [k]"
    by (auto simp: nextSibling_def split: if_splits option.splits)
  from scan_from_bounds [OF k] have "last node < k" "k < length (node_children par)"
    by auto
  with par q show ?thesis
    by (simp add: siblings_left_def parent_ptr_def)
qed

function axes_loop :: "xmlDoc \<Rightarrow> node_ptr option \<Rightarrow> (32 word \<times> c_fp) list \<Rightarrow> (32 word \<times> c_fp) list" where
  "axes_loop doc None axes = axes"
| "axes_loop doc (Some axis) axes =
     axes_loop doc (nextSibling doc axis AXIS_TAG) (axis_step doc axis axes)"
  by pat_completeness auto
termination
proof (relation "measure (\<lambda>(doc, axis, axes). case axis of None \<Rightarrow> 0 | Some a \<Rightarrow> Suc (siblings_left doc a))")
  show "wf (measure (\<lambda>(doc, axis, axes). case axis of None \<Rightarrow> 0 | Some a \<Rightarrow> Suc (siblings_left doc a)))"
    by simp
next
  fix doc :: xmlDoc and axis :: node_ptr and axes :: "(32 word \<times> c_fp) list"
  show "((doc, nextSibling doc axis AXIS_TAG, axis_step doc axis axes), (doc, Some axis, axes))
        \<in> measure (\<lambda>(doc, axis, axes). case axis of None \<Rightarrow> 0 | Some a \<Rightarrow> Suc (siblings_left doc a))"
    by (cases "nextSibling doc axis AXIS_TAG") (auto dest: nextSibling_siblings_left)
qed

text \<open>
  \<open>copyFont(ite, out)\<close> reads \<open>ite->mXmlDoc\<close> and \<open>ite->mFontNode\<close>, both non-null
  where it is called, and fills every field of \<open>out\<close>; here they are the two
  arguments and the record is the result. The results of \<open>strtol\<close> are converted to
  the fields' types \<open>uint16_t\<close> and \<open>uint32_t\<close>. The locale is read with
  \<open>xmlGetProp(ite->mXmlDoc->parent, "lang")\<close>, and \<open>xmlGetProp\<close> of a null node is
  null.
\<close>

definition copyFont :: "xmlDoc \<Rightarrow> node_ptr \<Rightarrow> ASystemFont" where
  "copyFont doc fontNode =
     \<lparr> mFilePath =
         ''/system/fonts/'' @
         xmlTrim (xmlNodeListGetString
           (case node_at doc fontNode of None \<Rightarrow> [] | Some n \<Rightarrow> node_children n)),
       mLocale =
         (case doc_parent doc of None \<Rightarrow> None | Some par \<Rightarrow> node_prop par ''lang''),
       mWeight =
         (case xmlGetProp doc fontNode ''weight'' of
            None \<Rightarrow> 400
          | Some weightStr \<Rightarrow> word_of_int (strtol weightStr)),
       mItalic =
         (case xmlGetProp doc fontNode ''style'' of
            None \<Rightarrow> False
          | Some styleStr \<Rightarrow> xmlStrEqual styleStr ''italic''),
       mCollectionIndex =
         (case xmlGetProp doc fontNode ''index'' of
            None \<Rightarrow> 0
          | Some indexStr \<Rightarrow> word_of_int (strtol indexStr)),
       mAxes = axes_loop doc (firstElement doc fontNode AXIS_TAG) [] \<rparr>"

section \<open>\<open>isFontFileAvailable\<close>\<close>

text \<open>
  The file system as \<open>stat\<close> sees it: for a path, the type of the file in \<open>st_mode\<close>,
  or nothing when \<open>stat\<close> fails.
\<close>

datatype file_type = S_IFREG | S_IFDIR | S_IFLNK | S_IFCHR | S_IFBLK | S_IFIFO | S_IFSOCK

type_synonym file_system = "string \<Rightarrow> file_type option"

definition S_ISREG :: "file_type \<Rightarrow> bool" where
  "S_ISREG t = (t = S_IFREG)"

definition isFontFileAvailable :: "file_system \<Rightarrow> string \<Rightarrow> bool" where
  "isFontFileAvailable fs filePath =
     (case fs filePath of None \<Rightarrow> False | Some st_mode \<Rightarrow> S_ISREG st_mode)"

section \<open>\<open>findFirstFontNode\<close>\<close>

function first_font_loop :: "xmlDoc \<Rightarrow> node_ptr \<Rightarrow> node_ptr option \<Rightarrow> node_ptr option" where
  "first_font_loop doc family font =
     (case font of
        Some f \<Rightarrow> Some f
      | None \<Rightarrow>
          (case nextSibling doc family FAMILY_TAG of
             None \<Rightarrow> None
           | Some family' \<Rightarrow> first_font_loop doc family' (firstElement doc family' FONT_TAG)))"
  by pat_completeness auto
termination
  by (relation "measure (\<lambda>(doc, family, font). siblings_left doc family)")
     (auto dest: nextSibling_siblings_left)

declare first_font_loop.simps [simp del]

definition findFirstFontNode :: "xmlDoc \<Rightarrow> node_ptr option" where
  "findFirstFontNode doc =
     (case xmlDocGetRootElement doc of
        None \<Rightarrow> None
      | Some familySet \<Rightarrow>
          (case firstElement doc familySet FAMILY_TAG of
             None \<Rightarrow> None
           | Some family \<Rightarrow> first_font_loop doc family (firstElement doc family FONT_TAG)))"

section \<open>The iterator\<close>

text \<open>
  How a call ends: \<open>LOG_ALWAYS_FATAL_IF\<close> aborts the process, reading through a null
  pointer is undefined, otherwise the call returns. A handle is a pointer to the
  structure, \<open>None\<close> being the null pointer.
\<close>

datatype 'a outcome = Abort | NullDereference | Return 'a

text \<open>
  \<open>ASystemFontIterator_open\<close>: the argument is what \<open>xmlReadFile\<close> returned, null when
  the file could not be read or parsed. \<open>mFontNode\<close> starts as null.
\<close>

definition ASystemFontIterator_open :: "xmlDoc option \<Rightarrow> ASystemFontIterator" where
  "ASystemFontIterator_open xmlReadFile = \<lparr> mXmlDoc = xmlReadFile, mFontNode = None \<rparr>"

text \<open>
  \<open>ASystemFontIterator_close\<close> and \<open>ASystemFont_close\<close> are a \<open>delete\<close> expression and
  nothing else; \<open>delete\<close> of a null pointer does nothing.
\<close>

definition ASystemFontIterator_close :: "ASystemFontIterator option \<Rightarrow> unit outcome" where
  "ASystemFontIterator_close ite = (case ite of None \<Rightarrow> Return () | Some _ \<Rightarrow> Return ())"

definition ASystemFont_close :: "ASystemFont option \<Rightarrow> unit outcome" where
  "ASystemFont_close font = (case font of None \<Rightarrow> Return () | Some _ \<Rightarrow> Return ())"

text \<open>
  The \<open>while (nextNode == nullptr)\<close> loop of \<open>ASystemFontIterator_next\<close>. Each round
  looks for the family after \<open>ite->mFontNode->parent\<close>; \<open>mFontNode\<close> is not assigned
  inside the loop. The loop may run forever, so its result is optional: \<open>None\<close> is a
  loop that never ends.
\<close>

partial_function (option) next_family_loop ::
  "xmlDoc \<Rightarrow> node_ptr \<Rightarrow> node_ptr option \<Rightarrow> node_ptr option option" where
  "next_family_loop doc fontNode nextNode =
     (case nextNode of
        Some n \<Rightarrow> Some (Some n)
      | None \<Rightarrow>
          (case nextSibling doc (parent_ptr fontNode) FAMILY_TAG of
             None \<Rightarrow> Some None
           | Some family \<Rightarrow> next_family_loop doc fontNode (firstElement doc family FONT_TAG)))"

text \<open>
  \<open>ASystemFontIterator_next\<close>. A call that returns gives the font (null when there is
  none) and the iterator as the call leaves it. With \<open>mFontNode\<close> set, the document
  is read without a test of \<open>mXmlDoc\<close>.
\<close>

partial_function (option) ASystemFontIterator_next ::
  "file_system \<Rightarrow> ASystemFontIterator option \<Rightarrow>
   (ASystemFont option \<times> ASystemFontIterator) outcome option" where
  "ASystemFontIterator_next fs h =
     (case h of
        None \<Rightarrow> Some Abort
      | Some ite \<Rightarrow>
          (case mFontNode ite of
             None \<Rightarrow>
               (case mXmlDoc ite of
                  None \<Rightarrow> Some (Return (None, ite))
                | Some doc \<Rightarrow>
                    (case findFirstFontNode doc of
                       None \<Rightarrow> Some (Return (None, ite\<lparr>mFontNode := None, mXmlDoc := None\<rparr>))
                     | Some n \<Rightarrow>
                         Some (Return (Some (copyFont doc n), ite\<lparr>mFontNode := Some n\<rparr>))))
           | Some fontNode \<Rightarrow>
               (case mXmlDoc ite of
                  None \<Rightarrow> Some NullDereference
                | Some doc \<Rightarrow>
                    Option.bind
                      (next_family_loop doc fontNode (nextSibling doc fontNode FONT_TAG))
                      (\<lambda>nextNode.
                         case nextNode of
                           None \<Rightarrow>
                             Some (Return (None, ite\<lparr>mFontNode := None, mXmlDoc := None\<rparr>))
                         | Some n \<Rightarrow>
                             if \<not> isFontFileAvailable fs (mFilePath (copyFont doc n))
                             then ASystemFontIterator_next fs (Some (ite\<lparr>mFontNode := Some n\<rparr>))
                             else Some (Return (Some (copyFont doc n),
                                                ite\<lparr>mFontNode := Some n\<rparr>))))))"

text \<open>The two unfolding equations also serve to evaluate calls on given documents.\<close>

declare next_family_loop.simps [code]
declare ASystemFontIterator_next.simps [code]

section \<open>The accessors\<close>

definition ASystemFont_getFontFilePath :: "ASystemFont option \<Rightarrow> string outcome" where
  "ASystemFont_getFontFilePath font =
     (case font of None \<Rightarrow> Abort | Some f \<Rightarrow> Return (mFilePath f))"

definition ASystemFont_getWeight :: "ASystemFont option \<Rightarrow> 16 word outcome" where
  "ASystemFont_getWeight font =
     (case font of None \<Rightarrow> Abort | Some f \<Rightarrow> Return (mWeight f))"

definition ASystemFont_isItalic :: "ASystemFont option \<Rightarrow> bool outcome" where
  "ASystemFont_isItalic font =
     (case font of None \<Rightarrow> Abort | Some f \<Rightarrow> Return (mItalic f))"

text \<open>
  \<open>ASystemFont_getLocale\<close> returns \<open>font->mLocale ? nullptr : font->mLocale->c_str()\<close>:
  the result is a pointer to a string, \<open>None\<close> being the null pointer.
\<close>

definition ASystemFont_getLocale :: "ASystemFont option \<Rightarrow> string option outcome" where
  "ASystemFont_getLocale font =
     (case font of
        None \<Rightarrow> Abort
      | Some f \<Rightarrow> (case mLocale f of Some _ \<Rightarrow> Return None | None \<Rightarrow> NullDereference))"

definition ASystemFont_getCollectionIndex :: "ASystemFont option \<Rightarrow> nat outcome" where
  "ASystemFont_getCollectionIndex font =
     (case font of None \<Rightarrow> Abort | Some f \<Rightarrow> Return (unat (mCollectionIndex f)))"

definition ASystemFont_getAxisCount :: "ASystemFont option \<Rightarrow> nat outcome" where
  "ASystemFont_getAxisCount font =
     (case font of None \<Rightarrow> Abort | Some f \<Rightarrow> Return (length (mAxes f)))"

definition ASystemFont_getAxisTag :: "ASystemFont option \<Rightarrow> 32 word \<Rightarrow> 32 word outcome" where
  "ASystemFont_getAxisTag font axisIndex =
     (case font of
        None \<Rightarrow> Abort
      | Some f \<Rightarrow>
          if length (mAxes f) \<le> unat axisIndex then Abort
          else Return (fst (mAxes f ! unat axisIndex)))"

definition ASystemFont_getAxisValue :: "ASystemFont option \<Rightarrow> 32 word \<Rightarrow> c_fp outcome" where
  "ASystemFont_getAxisValue font axisIndex =
     (case font of
        None \<Rightarrow> Abort
      | Some f \<Rightarrow>
          if length (mAxes f) \<le> unat axisIndex then Abort
          else Return (snd (mAxes f ! unat axisIndex)))"

section \<open>Example documents\<close>

definition bold_font :: xmlNode where
  "bold_font =
     Element ''font'' [(''weight'', ''700''), (''style'', ''italic''), (''index'', ''1'')]
       [Text ''  Roboto-Bold.ttf '',
        Element ''axis'' [(''tag'', ''wght''), (''stylevalue'', ''1.5'')] []]"

definition odd_font :: xmlNode where
  "odd_font =
     Element ''font'' [(''weight'', ''bold''), (''style'', ''Italic'')]
       [Text ''Odd.ttf'',
        Element ''axis'' [(''tag'', ''wght''), (''stylevalue'', ''abc'')] [],
        Element ''axis'' [(''tag'', ''wgh''), (''stylevalue'', ''1'')] [],
        Element ''axis'' [(''tag'', ''ital'')] []]"

definition plain_font :: xmlNode where
  "plain_font = Element ''font'' [] [Text ''Plain.ttf'']"

text \<open>One family with \<open>lang="en"\<close> and three fonts, as \<open>xmlReadFile\<close> returns it.\<close>

definition example_doc :: xmlDoc where
  "example_doc =
     \<lparr> doc_root = Some (Element ''familyset'' []
         [Element ''family'' [(''lang'', ''en'')] [bold_font, odd_font, plain_font]]),
       doc_parent = None \<rparr>"

text \<open>A family with one font, a family with no font, a family with one font.\<close>

definition gap_doc :: xmlDoc where
  "gap_doc =
     \<lparr> doc_root = Some (Element ''familyset'' []
         [Element ''family'' [] [Element ''font'' [] [Text ''A.ttf'']],
          Element ''family'' [] [],
          Element ''family'' [] [Element ''font'' [] [Text ''B.ttf'']]]),
       doc_parent = None \<rparr>"

text \<open>Two families with three fonts, on a file system that has only the last file.\<close>

definition three_doc :: xmlDoc where
  "three_doc =
     \<lparr> doc_root = Some (Element ''familyset'' []
         [Element ''family'' []
            [Element ''font'' [] [Text ''A.ttf''], Element ''font'' [] [Text ''B.ttf'']],
          Element ''family'' [] [Element ''font'' [] [Text ''C.ttf'']]]),
       doc_parent = None \<rparr>"

definition only_c :: file_system where
  "only_c path = (if path = ''/system/fonts/C.ttf'' then Some S_IFREG else None)"

text \<open>
  A family with two fonts, a family with no font, a family with one font, on a file
  system where the first file is missing, the second is a directory and the third is
  a regular file.
\<close>

definition gap2_doc :: xmlDoc where
  "gap2_doc =
     \<lparr> doc_root = Some (Element ''familyset'' []
         [Element ''family'' []
            [Element ''font'' [] [Text ''A.ttf''], Element ''font'' [] [Text ''B.ttf'']],
          Element ''family'' [] [],
          Element ''family'' [] [Element ''font'' [] [Text ''C.ttf'']]]),
       doc_parent = None \<rparr>"

definition dir_b :: file_system where
  "dir_b path =
     (if path = ''/system/fonts/C.ttf'' then Some S_IFREG
      else if path = ''/system/fonts/B.ttf'' then Some S_IFDIR
      else None)"

section \<open>Field extraction\<close>

lemma xmlGetProp_node:
  "node_at doc p = Some n \<Longrightarrow> xmlGetProp doc p a = node_prop n a"
  by (simp add: xmlGetProp_def)

text \<open>
  C9. The italic flag of the record made from a font node is true exactly when the
  node has a \<open>style\<close> attribute whose value is the string \<open>italic\<close>; any other value
  and a missing attribute give false.
\<close>

theorem italic_iff_style_italic:
  assumes "node_at doc fontNode = Some n"
  shows "mItalic (copyFont doc fontNode) = (node_prop n ''style'' = Some ''italic'')"
  using assms
  by (auto simp: copyFont_def xmlGetProp_node xmlStrEqual_def split: option.splits)

text \<open>
  Witness for C9: in the example document the first font has \<open>style="italic"\<close>, the
  second \<open>style="Italic"\<close> and the third no style.
\<close>

theorem italic_iff_style_italic_witness:
  "node_at example_doc [0, 0] = Some bold_font \<and> node_prop bold_font ''style'' = Some ''italic'' \<and>
   mItalic (copyFont example_doc [0, 0]) \<and>
   node_at example_doc [0, 1] = Some odd_font \<and> node_prop odd_font ''style'' = Some ''Italic'' \<and>
   \<not> mItalic (copyFont example_doc [0, 1]) \<and>
   node_at example_doc [0, 2] = Some plain_font \<and> node_prop plain_font ''style'' = None \<and>
   \<not> mItalic (copyFont example_doc [0, 2])"
proof -
  have n0: "node_at example_doc [0, 0] = Some bold_font" by code_simp
  have n1: "node_at example_doc [0, 1] = Some odd_font" by code_simp
  have n2: "node_at example_doc [0, 2] = Some plain_font" by code_simp
  have s0: "node_prop bold_font ''style'' = Some ''italic''" by code_simp
  have s1: "node_prop odd_font ''style'' = Some ''Italic''" by code_simp
  have s2: "node_prop plain_font ''style'' = None" by code_simp
  have r0: "mItalic (copyFont example_doc [0, 0])"
    using italic_iff_style_italic [OF n0] s0 by blast
  have r1: "\<not> mItalic (copyFont example_doc [0, 1])"
    using italic_iff_style_italic [OF n1] s1 by simp
  have r2: "\<not> mItalic (copyFont example_doc [0, 2])"
    using italic_iff_style_italic [OF n2] s2 by simp
  from n0 s0 r0 n1 s1 r1 n2 s2 r2 show ?thesis by blast
qed

subsection \<open>Weight\<close>

lemma strtol_no_digits:
  "takeWhile isdigit (snd (take_sign (dropWhile isspace w))) = [] \<Longrightarrow> strtol w = 0"
  by (cases "take_sign (dropWhile isspace w)")
     (simp add: strtol_def digits_value_def LONG_MIN_def LONG_MAX_def)

lemma isdigit_not_space: "isdigit c \<Longrightarrow> \<not> isspace c"
  by (auto simp: isdigit_def isspace_def)

lemma isdigit_not_sign: "isdigit c \<Longrightarrow> c \<noteq> CHR ''-'' \<and> c \<noteq> CHR ''+''"
  by (auto simp: isdigit_def)

lemma digits_value_nonneg:
  assumes "\<forall>c\<in>set ds. isdigit c" "0 \<le> a"
  shows "0 \<le> foldl (\<lambda>a c. 10 * a + digit_value c) a ds"
  using assms
proof (induction ds arbitrary: a)
  case Nil
  then show ?case by simp
next
  case (Cons c ds)
  then have "0 \<le> digit_value c" by (simp add: digit_value_def isdigit_def)
  with Cons.prems have "0 \<le> 10 * a + digit_value c" by simp
  with Cons show ?case by simp
qed

lemma strtol_digits:
  assumes "w \<noteq> []" "\<forall>c\<in>set w. isdigit c"
  shows "strtol w = min LONG_MAX (digits_value 10 w)"
proof -
  from assms obtain c r where w: "w = c # r" by (cases w) auto
  with assms have c: "isdigit c" by simp
  have 1: "dropWhile isspace w = w" using w c by (simp add: isdigit_not_space)
  have 2: "take_sign w = (False, w)" using w c isdigit_not_sign [OF c] by simp
  have 3: "takeWhile isdigit w = w" using assms by (simp add: takeWhile_eq_all_conv)
  show ?thesis by (simp add: strtol_def 1 2 3)
qed

lemma strtol_digits_uint16:
  assumes "w \<noteq> []" "\<forall>c\<in>set w. isdigit c" "digits_value 10 w < 65536"
  shows "uint (word_of_int (strtol w) :: 16 word) = digits_value 10 w"
proof -
  have nonneg: "0 \<le> digits_value 10 w"
    unfolding digits_value_def by (rule digits_value_nonneg [OF assms(2)]) simp
  have "strtol w = digits_value 10 w"
    using strtol_digits [OF assms(1,2)] assms(3) by (simp add: LONG_MAX_def)
  then show ?thesis using assms(3) nonneg by (simp add: uint_word_of_int)
qed

text \<open>
  C3, as amended. The weight of the record made from a font node is 400 when the node
  has no \<open>weight\<close> attribute. When the attribute is present the weight is the result of
  \<open>strtol\<close> in base 10, converted to 16 bits: the number itself for a value made of
  decimal digits only that is below 65536, and 0 (not 400) for a value in which no
  decimal number follows the optional white space and sign.
\<close>

theorem weight_from_attribute:
  assumes "node_at doc fontNode = Some n"
  shows "(node_prop n ''weight'' = None \<longrightarrow> mWeight (copyFont doc fontNode) = 400) \<and>
         (\<forall>w. node_prop n ''weight'' = Some w \<longrightarrow>
            mWeight (copyFont doc fontNode) = word_of_int (strtol w) \<and>
            (w \<noteq> [] \<and> (\<forall>c\<in>set w. isdigit c) \<and> digits_value 10 w < 65536 \<longrightarrow>
               uint (mWeight (copyFont doc fontNode)) = digits_value 10 w) \<and>
            (takeWhile isdigit (snd (take_sign (dropWhile isspace w))) = [] \<longrightarrow>
               mWeight (copyFont doc fontNode) = 0))"
proof -
  have absent: "mWeight (copyFont doc fontNode) = 400" if "node_prop n ''weight'' = None"
    using assms that by (simp add: copyFont_def xmlGetProp_node)
  have present: "mWeight (copyFont doc fontNode) = word_of_int (strtol w)"
    if "node_prop n ''weight'' = Some w" for w
    using assms that by (simp add: copyFont_def xmlGetProp_node)
  show ?thesis
    using absent present strtol_digits_uint16 strtol_no_digits by auto
qed

text \<open>
  Witness for C3: the three fonts of the example document have \<open>weight="700"\<close>,
  \<open>weight="bold"\<close> and no weight.
\<close>

theorem weight_from_attribute_witness:
  "node_at example_doc [0, 0] = Some bold_font \<and> node_prop bold_font ''weight'' = Some ''700'' \<and>
   uint (mWeight (copyFont example_doc [0, 0])) = 700 \<and>
   node_at example_doc [0, 1] = Some odd_font \<and> node_prop odd_font ''weight'' = Some ''bold'' \<and>
   mWeight (copyFont example_doc [0, 1]) = 0 \<and>
   node_at example_doc [0, 2] = Some plain_font \<and> node_prop plain_font ''weight'' = None \<and>
   mWeight (copyFont example_doc [0, 2]) = 400"
proof -
  have n0: "node_at example_doc [0, 0] = Some bold_font" by code_simp
  have n1: "node_at example_doc [0, 1] = Some odd_font" by code_simp
  have n2: "node_at example_doc [0, 2] = Some plain_font" by code_simp
  have w0: "node_prop bold_font ''weight'' = Some ''700''" by code_simp
  have w1: "node_prop odd_font ''weight'' = Some ''bold''" by code_simp
  have w2: "node_prop plain_font ''weight'' = None" by code_simp
  have d0: "''700'' \<noteq> [] \<and> (\<forall>c\<in>set ''700''. isdigit c) \<and> digits_value 10 ''700'' < 65536"
    by code_simp
  have v0: "digits_value 10 ''700'' = 700" by code_simp
  have d1: "takeWhile isdigit (snd (take_sign (dropWhile isspace ''bold''))) = []"
    by code_simp
  note t0 = weight_from_attribute [OF n0, THEN conjunct2, rule_format, OF w0]
  note t1 = weight_from_attribute [OF n1, THEN conjunct2, rule_format, OF w1]
  note t2 = weight_from_attribute [OF n2, THEN conjunct1, rule_format, OF w2]
  from t0 d0 have "uint (mWeight (copyFont example_doc [0, 0])) = digits_value 10 ''700''"
    by blast
  then have r0: "uint (mWeight (copyFont example_doc [0, 0])) = 700"
    by (simp only: v0)
  from t1 d1 have r1: "mWeight (copyFont example_doc [0, 1]) = 0"
    by blast
  from n0 w0 r0 n1 w1 r1 n2 w2 t2 show ?thesis by blast
qed

text \<open>
  Counterexample to C3 as stated: the second font of the example document has
  \<open>weight="bold"\<close>, in which \<open>strtol\<close> finds no number, and its weight is 0, not 400.
\<close>

theorem weight_non_numeric_counterexample:
  "xmlGetProp example_doc [0, 1] ''weight'' = Some ''bold'' \<and>
   takeWhile isdigit (snd (take_sign (dropWhile isspace ''bold''))) = [] \<and>
   mWeight (copyFont example_doc [0, 1]) = 0 \<and>
   mWeight (copyFont example_doc [0, 1]) \<noteq> 400"
  by code_simp

subsection \<open>Locale\<close>

text \<open>
  C2 at the failing input: the only family of the example document has \<open>lang="en"\<close>,
  and the record made from its first font has no locale. \<open>copyFont\<close> reads \<open>lang\<close>
  from \<open>ite->mXmlDoc->parent\<close>, which is null in a parsed document, and not from the
  family of the font.
\<close>

theorem locale_not_from_family:
  "node_at example_doc [0, 0] = Some bold_font \<and>
   xmlGetProp example_doc (parent_ptr [0, 0]) ''lang'' = Some ''en'' \<and>
   mLocale (copyFont example_doc [0, 0]) = None"
  by code_simp

text \<open>
  C10 at the failing inputs: for a record with the locale \<open>en\<close>
  \<open>ASystemFont_getLocale\<close> returns null, and for a record without a locale it reads
  through the null \<open>mLocale\<close>.
\<close>

theorem getLocale_inverted:
  "ASystemFont_getLocale (Some ((copyFont example_doc [0, 0])\<lparr>mLocale := Some ''en''\<rparr>)) =
     Return None \<and>
   mLocale (copyFont example_doc [0, 0]) = None \<and>
   ASystemFont_getLocale (Some (copyFont example_doc [0, 0])) = NullDereference"
  by code_simp

subsection \<open>Axes\<close>

text \<open>
  What one child of a font node contributes to the axes, in the words of the amended
  C4: an element named \<open>axis\<close> with a \<open>tag\<close> attribute of four bytes and a
  \<open>stylevalue\<close> attribute gives the packed tag and the value \<open>strtod\<close> finds in the
  style value, converted to \<open>float\<close>; any other child gives nothing.
\<close>

definition axis_entry :: "xmlNode \<Rightarrow> (32 word \<times> c_fp) option" where
  "axis_entry c =
     (if node_name c = ''axis'' then
        (case node_prop c ''tag'' of
           None \<Rightarrow> None
         | Some t \<Rightarrow>
             (case node_prop c ''stylevalue'' of
                None \<Rightarrow> None
              | Some sv \<Rightarrow>
                  if length t = 4 then Some (axis_tag t, float_of_double (strtod sv))
                  else None))
      else None)"

lemma subnode_snoc:
  "subnode r p = Some n \<Longrightarrow> k < length (node_children n) \<Longrightarrow>
   subnode r (p @ [k]) = Some (node_children n ! k)"
  by (induction r p rule: subnode.induct) (auto split: if_splits)

lemma node_at_child:
  "node_at doc p = Some n \<Longrightarrow> k < length (node_children n) \<Longrightarrow>
   node_at doc (p @ [k]) = Some (node_children n ! k)"
  by (auto simp: node_at_def subnode_snoc split: option.splits)

lemma nextSibling_child:
  "node_at doc p = Some n \<Longrightarrow>
   nextSibling doc (p @ [k]) tag =
     map_option (\<lambda>i. p @ [i]) (scan_from (node_children n) tag (Suc k))"
  by (simp add: nextSibling_def parent_ptr_def)

lemma axis_step_child:
  assumes "node_at doc p = Some n" "k < length (node_children n)"
    "node_name (node_children n ! k) = AXIS_TAG"
  shows "axis_step doc (p @ [k]) acc =
         acc @ (case axis_entry (node_children n ! k) of None \<Rightarrow> [] | Some e \<Rightarrow> [e])"
  using assms node_at_child [OF assms(1,2)]
  by (auto simp: axis_step_def axis_entry_def xmlGetProp_def AXIS_TAG_def split: option.splits)

text \<open>
  The loop over the \<open>axis\<close> children, entered at the first \<open>axis\<close> child from position
  \<open>i\<close> on, appends the entries of the children from \<open>i\<close> on.
\<close>

lemma axes_loop_scan:
  assumes "node_at doc p = Some n"
  shows "axes_loop doc (map_option (\<lambda>i. p @ [i]) (scan_from (node_children n) AXIS_TAG i)) acc =
         acc @ List.map_filter axis_entry (drop i (node_children n))"
proof (induction "length (node_children n) - i" arbitrary: i acc)
  case 0
  then have "scan_from (node_children n) AXIS_TAG i = None" "drop i (node_children n) = []"
    by (simp_all add: scan_from.simps)
  then show ?case by simp
next
  case (Suc d)
  then have i: "i < length (node_children n)" and d: "d = length (node_children n) - Suc i"
    by auto
  have dr: "drop i (node_children n) = node_children n ! i # drop (Suc i) (node_children n)"
    using i by (simp add: Cons_nth_drop_Suc)
  show ?case
  proof (cases "node_name (node_children n ! i) = AXIS_TAG")
    case True
    then have sc: "scan_from (node_children n) AXIS_TAG i = Some i"
      using i by (simp add: scan_from.simps)
    show ?thesis
      using Suc.hyps(1) [OF d] True i assms
      by (simp add: sc dr nextSibling_child axis_step_child split: option.splits)
  next
    case False
    then have sc: "scan_from (node_children n) AXIS_TAG i =
                   scan_from (node_children n) AXIS_TAG (Suc i)"
      using i by (subst scan_from.simps) simp
    have "axis_entry (node_children n ! i) = None"
      using False by (simp add: axis_entry_def AXIS_TAG_def)
    then show ?thesis
      using Suc.hyps(1) [OF d] by (simp add: sc dr)
  qed
qed

lemma mAxes_copyFont:
  assumes "node_at doc fontNode = Some n"
  shows "mAxes (copyFont doc fontNode) = List.map_filter axis_entry (node_children n)"
  using axes_loop_scan [OF assms, of 0 "[]"] assms
  by (simp add: copyFont_def firstElement_def)

lemma axis_entry_Some_iff:
  "(axis_entry c \<noteq> None) =
     (node_name c = ''axis'' \<and> (\<exists>t. node_prop c ''tag'' = Some t \<and> length t = 4) \<and>
      (\<exists>sv. node_prop c ''stylevalue'' = Some sv))"
  by (auto simp: axis_entry_def split: option.splits)

text \<open>
  C4, as amended. The axes of the record made from a font node hold one entry for
  each child element named \<open>axis\<close> that has a \<open>tag\<close> attribute of exactly four bytes
  and a \<open>stylevalue\<close> attribute, in document order, and nothing else: a child without
  such a tag or without a \<open>stylevalue\<close> attribute is dropped. Whether the style value
  is a number plays no part; the entry holds what \<open>strtod\<close> returns for it.
\<close>

theorem axes_of_font_node:
  assumes "node_at doc fontNode = Some n"
  shows "mAxes (copyFont doc fontNode) = List.map_filter axis_entry (node_children n) \<and>
         (\<forall>c. (axis_entry c \<noteq> None) =
            (node_name c = ''axis'' \<and>
             (\<exists>t. node_prop c ''tag'' = Some t \<and> length t = 4) \<and>
             (\<exists>sv. node_prop c ''stylevalue'' = Some sv)))"
  using mAxes_copyFont [OF assms] axis_entry_Some_iff by blast

text \<open>
  Witness for C4: the second font of the example document has an axis with the style
  value \<open>abc\<close>, an axis with a tag of three bytes and an axis without a style value.
  Only the first of them has an entry.
\<close>

theorem axes_of_font_node_witness:
  "node_at example_doc [0, 1] = Some odd_font \<and>
   mAxes (copyFont example_doc [0, 1]) = [(0x77676874, Finite False 0 (- 149))]"
proof -
  have n1: "node_at example_doc [0, 1] = Some odd_font" by code_simp
  have e: "List.map_filter axis_entry (node_children odd_font) =
           [(0x77676874, Finite False 0 (- 149))]"
    by code_simp
  from axes_of_font_node [OF n1, THEN conjunct1]
  have "mAxes (copyFont example_doc [0, 1]) = [(0x77676874, Finite False 0 (- 149))]"
    by (simp only: e)
  with n1 show ?thesis by blast
qed

text \<open>
  Counterexample to C4 as stated: the child at position 1 of the second font of the
  example document is an axis with \<open>tag="wght"\<close> and \<open>stylevalue="abc"\<close>. \<open>strtod\<close>
  finds no number in \<open>abc\<close>, and the axis is not dropped: it has an entry, with the
  value zero.
\<close>

theorem axis_unparsed_stylevalue_counterexample:
  "node_children odd_font ! 1 =
     Element ''axis'' [(''tag'', ''wght''), (''stylevalue'', ''abc'')] [] \<and>
   hex_number False ''abc'' = None \<and> decimal_number False ''abc'' = None \<and>
   mAxes (copyFont example_doc [0, 1]) = [(0x77676874, Finite False 0 (- 149))] \<and>
   mAxes (copyFont example_doc [0, 1]) \<noteq> []"
  by code_simp

subsection \<open>The packed tag\<close>

lemma or_push_bit_nat:
  fixes a b :: nat
  assumes "b < 2 ^ n"
  shows "push_bit n a OR b = a * 2 ^ n + b"
proof -
  have "\<not> bit (push_bit n a) k \<or> \<not> bit b k" for k
  proof (cases "k < n")
    case True
    then show ?thesis by (simp add: bit_push_bit_iff)
  next
    case False
    then have "b < 2 ^ k"
      using assms by (meson leI less_le_trans one_le_numeral power_increasing)
    then show ?thesis by (simp add: bit_iff_odd)
  qed
  then have "push_bit n a + b = push_bit n a OR b"
    by (rule disjunctive_add)
  then show ?thesis by (simp add: push_bit_eq_mult)
qed

lemma unat_of_char32: "unat (of_char c :: 32 word) = of_char c"
proof -
  have "unat (of_nat n :: 32 word) = n" if "n < 256" for n :: nat
    using that by (simp add: unat_of_nat)
  from this [OF nat_of_char_less_256 [of c]] show ?thesis
    by (simp only: of_nat_of_char)
qed

lemma axis_tag_unat:
  "unat (axis_tag [c0, c1, c2, c3]) =
     2 ^ 24 * of_char c0 + 2 ^ 16 * of_char c1 + 2 ^ 8 * of_char c2 + of_char c3"
proof -
  let ?a = "of_char c0 :: nat" and ?b = "of_char c1 :: nat"
  and ?c = "of_char c2 :: nat" and ?d = "of_char c3 :: nat"
  have lt: "k < 2 ^ 8" if "k < 256" for k :: nat using that by simp
  have lt16: "k < 2 ^ 16" if "k < 256" for k :: nat using that by simp
  have lt24: "k < 2 ^ 24" if "k < 256" for k :: nat using that by simp
  have p2: "c * 2 ^ 8 + d < 2 ^ 16" if "c < 256" "d < 256" for c d :: nat
    using that by simp
  have p3: "b * 2 ^ 16 + (c * 2 ^ 8 + d) < 2 ^ 24" if "b < 256" "c < 256" "d < 256"
    for b c d :: nat using that by simp
  have tb: "take_bit 32 (push_bit 24 ?a) = push_bit 24 ?a"
    "take_bit 32 (push_bit 16 ?b) = push_bit 16 ?b"
    "take_bit 32 (push_bit 8 ?c) = push_bit 8 ?c"
    using lt [OF nat_of_char_less_256 [of c0]] lt16 [OF nat_of_char_less_256 [of c1]]
      lt24 [OF nat_of_char_less_256 [of c2]]
    by (simp_all add: take_bit_nat_eq_self_iff push_bit_eq_mult)
  have "unat (axis_tag [c0, c1, c2, c3]) =
        push_bit 24 ?a OR push_bit 16 ?b OR push_bit 8 ?c OR ?d"
    by (simp add: axis_tag_def unsigned_or_eq unsigned_push_bit_eq unat_of_char32 tb)
  also have "push_bit 8 ?c OR ?d = ?c * 2 ^ 8 + ?d"
    by (rule or_push_bit_nat) simp
  also have "push_bit 16 ?b OR (?c * 2 ^ 8 + ?d) = ?b * 2 ^ 16 + (?c * 2 ^ 8 + ?d)"
    by (rule or_push_bit_nat) (rule p2 [OF nat_of_char_less_256 nat_of_char_less_256])
  also have "push_bit 24 ?a OR (?b * 2 ^ 16 + (?c * 2 ^ 8 + ?d)) =
             ?a * 2 ^ 24 + (?b * 2 ^ 16 + (?c * 2 ^ 8 + ?d))"
    by (rule or_push_bit_nat)
       (rule p3 [OF nat_of_char_less_256 nat_of_char_less_256 nat_of_char_less_256])
  finally show ?thesis by (simp add: or.assoc)
qed

text \<open>
  C8. An axis child of a font node that is accepted (a \<open>tag\<close> of four bytes and a
  \<open>stylevalue\<close> attribute) has an entry in the axes of the record whose tag is the
  four bytes packed big-endian into 32 bits, the first byte in the most significant
  position, and whose value is what \<open>strtod\<close> finds in the style value, as a \<open>float\<close>.
  One round of the loop appends exactly this entry.
\<close>

theorem axis_tag_and_value:
  assumes "node_at doc fontNode = Some n"
    and "i < length (node_children n)"
    and "node_name (node_children n ! i) = ''axis''"
    and "node_prop (node_children n ! i) ''tag'' = Some [c0, c1, c2, c3]"
    and "node_prop (node_children n ! i) ''stylevalue'' = Some sv"
  shows "(axis_tag [c0, c1, c2, c3], float_of_double (strtod sv))
           \<in> set (mAxes (copyFont doc fontNode)) \<and>
         axis_step doc (fontNode @ [i]) axes =
           axes @ [(axis_tag [c0, c1, c2, c3], float_of_double (strtod sv))] \<and>
         unat (axis_tag [c0, c1, c2, c3]) =
           2 ^ 24 * of_char c0 + 2 ^ 16 * of_char c1 + 2 ^ 8 * of_char c2 + of_char c3"
proof -
  let ?e = "(axis_tag [c0, c1, c2, c3], float_of_double (strtod sv))"
  have entry: "axis_entry (node_children n ! i) = Some ?e"
    using assms(3-5) by (simp add: axis_entry_def)
  have "node_children n ! i \<in> set (node_children n)"
    using assms(2) by simp
  with entry have "?e \<in> set (List.map_filter axis_entry (node_children n))"
    by (force simp: List.map_filter_def image_iff)
  then have 1: "?e \<in> set (mAxes (copyFont doc fontNode))"
    by (simp only: mAxes_copyFont [OF assms(1)])
  have 2: "axis_step doc (fontNode @ [i]) axes = axes @ [?e]"
    using axis_step_child [OF assms(1,2), of axes] assms(3) entry
    by (simp add: AXIS_TAG_def)
  from 1 2 axis_tag_unat show ?thesis by blast
qed

text \<open>
  Witness for C8: the axis of the first font of the example document has \<open>tag="wght"\<close>
  and \<open>stylevalue="1.5"\<close>. Its entry has the tag \<open>0x77676874\<close>, the bytes of
  \<open>wght\<close> in order, and the value \<open>12582912 * 2 ^ - 23\<close>, which is 1.5.
\<close>

theorem axis_tag_and_value_witness:
  "node_at example_doc [0, 0] = Some bold_font \<and>
   node_children bold_font ! 1 =
     Element ''axis'' [(''tag'', ''wght''), (''stylevalue'', ''1.5'')] [] \<and>
   (0x77676874, Finite False 12582912 (- 23)) \<in> set (mAxes (copyFont example_doc [0, 0])) \<and>
   fp_value (Finite False 12582912 (- 23)) = Some (3 / 2)"
proof -
  have n0: "node_at example_doc [0, 0] = Some bold_font" by code_simp
  have c: "node_children bold_font ! 1 =
           Element ''axis'' [(''tag'', ''wght''), (''stylevalue'', ''1.5'')] []"
    by code_simp
  have i: "1 < length (node_children bold_font)" by code_simp
  have nm: "node_name (node_children bold_font ! 1) = ''axis''" by code_simp
  have t: "node_prop (node_children bold_font ! 1) ''tag'' =
           Some [CHR ''w'', CHR ''g'', CHR ''h'', CHR ''t'']"
    by code_simp
  have sv: "node_prop (node_children bold_font ! 1) ''stylevalue'' = Some ''1.5''"
    by code_simp
  have tag: "axis_tag [CHR ''w'', CHR ''g'', CHR ''h'', CHR ''t''] = 0x77676874"
    by code_simp
  have val: "float_of_double (strtod ''1.5'') = Finite False 12582912 (- 23)"
    by code_simp
  have v: "fp_value (Finite False 12582912 (- 23)) = Some (3 / 2)"
    by code_simp
  from axis_tag_and_value [OF n0 i nm t sv, THEN conjunct1]
  have "(0x77676874, Finite False 12582912 (- 23)) \<in> set (mAxes (copyFont example_doc [0, 0]))"
    by (simp only: tag val)
  with n0 c v show ?thesis by blast
qed

section \<open>Null handles\<close>

text \<open>
  C5, as amended. A null handle passed to \<open>ASystemFontIterator_next\<close> or to an
  accessor of a font record aborts the process. A null handle passed to
  \<open>ASystemFontIterator_close\<close> or to \<open>ASystemFont_close\<close> does not: the call does
  nothing and returns.
\<close>

theorem null_handle_rule:
  "ASystemFontIterator_next fs None = Some Abort \<and>
   ASystemFont_getFontFilePath None = Abort \<and>
   ASystemFont_getWeight None = Abort \<and>
   ASystemFont_isItalic None = Abort \<and>
   ASystemFont_getLocale None = Abort \<and>
   ASystemFont_getCollectionIndex None = Abort \<and>
   ASystemFont_getAxisCount None = Abort \<and>
   ASystemFont_getAxisTag None axisIndex = Abort \<and>
   ASystemFont_getAxisValue None axisIndex = Abort \<and>
   ASystemFontIterator_close None = Return () \<and>
   ASystemFont_close None = Return ()"
  by (simp add: ASystemFontIterator_next.simps ASystemFont_getFontFilePath_def
        ASystemFont_getWeight_def ASystemFont_isItalic_def ASystemFont_getLocale_def
        ASystemFont_getCollectionIndex_def ASystemFont_getAxisCount_def
        ASystemFont_getAxisTag_def ASystemFont_getAxisValue_def
        ASystemFontIterator_close_def ASystemFont_close_def)

text \<open>
  Counterexample to C5 as stated: both close functions return on a null handle; they
  do not abort.
\<close>

theorem close_null_counterexample:
  "ASystemFontIterator_close None = Return () \<and> ASystemFontIterator_close None \<noteq> Abort \<and>
   ASystemFont_close None = Return () \<and> ASystemFont_close None \<noteq> Abort"
  by (simp add: ASystemFontIterator_close_def ASystemFont_close_def)

section \<open>Advancing the iterator\<close>

text \<open>
  The family loop of \<open>ASystemFontIterator_next\<close> never ends when the family after the
  current one has no font: every round finds that same family again.
\<close>

lemma next_family_loop_diverges:
  assumes fam: "nextSibling doc (parent_ptr f) FAMILY_TAG = Some fam"
    and nofont: "firstElement doc fam FONT_TAG = None"
  shows "next_family_loop doc f None = None"
proof (rule ccontr)
  assume "next_family_loop doc f None \<noteq> None"
  then obtain y where y: "next_family_loop doc f None = Some y" by auto
  have "\<not> (doc = doc \<and> f = f \<and> (None :: node_ptr option) = None)"
  proof (rule next_family_loop.raw_induct
      [where P = "\<lambda>d fn nn r. \<not> (d = doc \<and> fn = f \<and> nn = None)", OF _ y])
    fix loop d fn nn r
    assume IH: "\<And>d fn nn r. loop d fn nn = Some r \<Longrightarrow> \<not> (d = doc \<and> fn = f \<and> nn = None)"
      and step: "(case nn of
          None \<Rightarrow>
            (case nextSibling d (parent_ptr fn) FAMILY_TAG of
               None \<Rightarrow> Some None
             | Some family \<Rightarrow> loop d fn (firstElement d family FONT_TAG))
        | Some n \<Rightarrow> Some (Some n)) = Some r"
    show "\<not> (d = doc \<and> fn = f \<and> nn = None)"
    proof
      assume eq: "d = doc \<and> fn = f \<and> nn = None"
      with step fam nofont have "loop doc f None = Some r" by simp
      from IH [OF this] show False by simp
    qed
  qed
  then show False by simp
qed

text \<open>
  C1 at the failing input: in a document whose second family has no font, the first
  call returns the font of the first family and leaves the cursor on it, and the
  second call never returns. The claim says that it skips the empty family and
  returns the font of the third one.
\<close>

theorem next_never_returns_after_empty_family:
  "ASystemFontIterator_next only_c (Some (ASystemFontIterator_open (Some gap_doc))) =
     Some (Return (Some (copyFont gap_doc [0, 0]),
                   \<lparr> mXmlDoc = Some gap_doc, mFontNode = Some [0, 0] \<rparr>)) \<and>
   nextSibling gap_doc [0, 0] FONT_TAG = None \<and>
   nextSibling gap_doc (parent_ptr [0, 0]) FAMILY_TAG = Some [1] \<and>
   firstElement gap_doc [1] FONT_TAG = None \<and>
   firstElement gap_doc [2] FONT_TAG = Some [2, 0] \<and>
   ASystemFontIterator_next only_c
     (Some \<lparr> mXmlDoc = Some gap_doc, mFontNode = Some [0, 0] \<rparr>) = None"
proof -
  have first: "ASystemFontIterator_next only_c (Some (ASystemFontIterator_open (Some gap_doc))) =
     Some (Return (Some (copyFont gap_doc [0, 0]),
                   \<lparr> mXmlDoc = Some gap_doc, mFontNode = Some [0, 0] \<rparr>))"
    by code_simp
  have font: "nextSibling gap_doc [0, 0] FONT_TAG = None" by code_simp
  have fam: "nextSibling gap_doc (parent_ptr [0, 0]) FAMILY_TAG = Some [1]" by code_simp
  have empty: "firstElement gap_doc [1] FONT_TAG = None" by code_simp
  have third: "firstElement gap_doc [2] FONT_TAG = Some [2, 0]" by code_simp
  have "ASystemFontIterator_next only_c
          (Some \<lparr> mXmlDoc = Some gap_doc, mFontNode = Some [0, 0] \<rparr>) = None"
    by (subst ASystemFontIterator_next.simps)
       (simp add: font next_family_loop_diverges [OF fam empty])
  with first font fam empty third show ?thesis by blast
qed

subsection \<open>The two steps of \<open>ASystemFontIterator_next\<close>\<close>

lemma next_unstarted:
  assumes "mFontNode ite = None" "mXmlDoc ite = Some doc" "findFirstFontNode doc = Some n"
  shows "ASystemFontIterator_next fs (Some ite) =
         Some (Return (Some (copyFont doc n), ite\<lparr>mFontNode := Some n\<rparr>))"
  using assms by (subst ASystemFontIterator_next.simps) simp

lemma next_at_node:
  assumes "mFontNode ite = Some p" "mXmlDoc ite = Some doc"
    "next_family_loop doc p (nextSibling doc p FONT_TAG) = Some (Some n)"
  shows "ASystemFontIterator_next fs (Some ite) =
         (if isFontFileAvailable fs (mFilePath (copyFont doc n))
          then Some (Return (Some (copyFont doc n), ite\<lparr>mFontNode := Some n\<rparr>))
          else ASystemFontIterator_next fs (Some (ite\<lparr>mFontNode := Some n\<rparr>)))"
  using assms by (subst ASystemFontIterator_next.simps) simp

lemma next_exhausted:
  assumes "mFontNode ite = None" "mXmlDoc ite = None"
  shows "ASystemFontIterator_next fs (Some ite) = Some (Return (None, ite))"
  using assms by (subst ASystemFontIterator_next.simps) simp

text \<open>A font returned from a cursor on a node names an available file.\<close>

lemma next_at_node_available:
  assumes "ASystemFontIterator_next fs (Some ite) = Some (Return (Some font, ite'))"
    and "mFontNode ite = Some p"
  shows "isFontFileAvailable fs (mFilePath font)"
proof -
  define P where "P = (\<lambda>(fs :: file_system) (h :: ASystemFontIterator option)
       (y :: (ASystemFont option \<times> ASystemFontIterator) outcome).
     \<forall>i p f i'. h = Some i \<and> mFontNode i = Some p \<and> y = Return (Some f, i') \<longrightarrow>
       isFontFileAvailable fs (mFilePath f))"
  have "P fs (Some ite) (Return (Some font, ite'))"
  proof (rule ASystemFontIterator_next.raw_induct [OF _ assms(1)])
    fix nxt fs h y
    assume IH: "\<And>fs h y. nxt fs h = Some y \<Longrightarrow> P fs h y"
    assume step: "(case h of
        None \<Rightarrow> Some Abort
      | Some ite \<Rightarrow>
          (case mFontNode ite of
             None \<Rightarrow>
               (case mXmlDoc ite of
                  None \<Rightarrow> Some (Return (None, ite))
                | Some doc \<Rightarrow>
                    (case findFirstFontNode doc of
                       None \<Rightarrow> Some (Return (None, ite\<lparr>mFontNode := None, mXmlDoc := None\<rparr>))
                     | Some n \<Rightarrow>
                         Some (Return (Some (copyFont doc n), ite\<lparr>mFontNode := Some n\<rparr>))))
           | Some fontNode \<Rightarrow>
               (case mXmlDoc ite of
                  None \<Rightarrow> Some NullDereference
                | Some doc \<Rightarrow>
                    Option.bind
                      (next_family_loop doc fontNode (nextSibling doc fontNode FONT_TAG))
                      (\<lambda>nextNode.
                         case nextNode of
                           None \<Rightarrow>
                             Some (Return (None, ite\<lparr>mFontNode := None, mXmlDoc := None\<rparr>))
                         | Some n \<Rightarrow>
                             if \<not> isFontFileAvailable fs (mFilePath (copyFont doc n))
                             then nxt fs (Some (ite\<lparr>mFontNode := Some n\<rparr>))
                             else Some (Return (Some (copyFont doc n),
                                                ite\<lparr>mFontNode := Some n\<rparr>)))))) = Some y"
    show "P fs h y"
      unfolding P_def
    proof (intro allI impI, elim conjE)
      fix i p f i'
      assume h: "h = Some i" and p: "mFontNode i = Some p" and y: "y = Return (Some f, i')"
      from step h p y obtain doc where doc: "mXmlDoc i = Some doc"
        by (cases "mXmlDoc i") auto
      with step h p obtain nn where
        nn: "(case nn of
                None \<Rightarrow> Some (Return (None, i\<lparr>mFontNode := None, mXmlDoc := None\<rparr>))
              | Some n \<Rightarrow>
                  if \<not> isFontFileAvailable fs (mFilePath (copyFont doc n))
                  then nxt fs (Some (i\<lparr>mFontNode := Some n\<rparr>))
                  else Some (Return (Some (copyFont doc n), i\<lparr>mFontNode := Some n\<rparr>))) = Some y"
        by (auto simp: bind_eq_Some_conv)
      with y obtain n where nn_eq: "nn = Some n" by (cases nn) auto
      with nn y have
        n: "if \<not> isFontFileAvailable fs (mFilePath (copyFont doc n))
            then nxt fs (Some (i\<lparr>mFontNode := Some n\<rparr>)) = Some (Return (Some f, i'))
            else f = copyFont doc n"
        by (auto split: if_splits)
      show "isFontFileAvailable fs (mFilePath f)"
      proof (cases "isFontFileAvailable fs (mFilePath (copyFont doc n))")
        case True
        with n show ?thesis by simp
      next
        case False
        with n have "nxt fs (Some (i\<lparr>mFontNode := Some n\<rparr>)) = Some (Return (Some f, i'))"
          by simp
        from IH [OF this] show ?thesis by (simp add: P_def)
      qed
    qed
  qed
  with assms(2) show ?thesis by (auto simp: P_def)
qed

text \<open>A call that returns no font leaves the iterator without document and cursor.\<close>

lemma next_null_exhausted:
  assumes "ASystemFontIterator_next fs h = Some (Return (None, ite'))"
  shows "mXmlDoc ite' = None \<and> mFontNode ite' = None"
proof -
  define P where "P = (\<lambda>(fs :: file_system) (h :: ASystemFontIterator option)
       (y :: (ASystemFont option \<times> ASystemFontIterator) outcome).
     \<forall>i. y = Return (None, i) \<longrightarrow> mXmlDoc i = None \<and> mFontNode i = None)"
  have "P fs h (Return (None, ite'))"
    by (rule ASystemFontIterator_next.raw_induct [OF _ assms])
       (auto simp: P_def bind_eq_Some_conv split: option.splits if_splits)
  then show ?thesis by (simp add: P_def)
qed

lemma next_at_node_never:
  assumes "mFontNode ite = Some p" "mXmlDoc ite = Some doc"
    "next_family_loop doc p (nextSibling doc p FONT_TAG) = None"
  shows "ASystemFontIterator_next fs (Some ite) = None"
  using assms by (subst ASystemFontIterator_next.simps) simp

text \<open>The check of \<open>isFontFileAvailable\<close> in terms of the file system.\<close>

lemma isFontFileAvailable_regular:
  "isFontFileAvailable fs filePath = (fs filePath = Some S_IFREG)"
  by (simp add: isFontFileAvailable_def S_ISREG_def split: option.splits)

text \<open>A font returned from a cursor on a node names an existing regular file.\<close>

lemma next_at_node_regular_file:
  assumes "ASystemFontIterator_next fs (Some ite) = Some (Return (Some font, ite'))"
    and "mFontNode ite = Some p"
  shows "fs (mFilePath font) = Some S_IFREG"
  using next_at_node_available [OF assms] by (simp only: isFontFileAvailable_regular)

text \<open>
  C6 at the failing input: a document whose first family has the fonts A and B, whose
  second family has no font and whose third family has the font C, on a file system
  where \<open>A.ttf\<close> is missing, \<open>B.ttf\<close> is a directory and \<open>C.ttf\<close> is a regular file.
  The first call returns the record of A although its file is missing. In the second
  call the record of B is discarded, because its path is not a regular file, and the
  call then never returns, although the font node that follows B in the document is
  C and its file is a regular file. The claim says that the iteration skips to that
  font node.
\<close>

theorem discarded_font_before_empty_family:
  "ASystemFontIterator_next dir_b (Some (ASystemFontIterator_open (Some gap2_doc))) =
     Some (Return (Some (copyFont gap2_doc [0, 0]),
                   \<lparr> mXmlDoc = Some gap2_doc, mFontNode = Some [0, 0] \<rparr>)) \<and>
   dir_b (mFilePath (copyFont gap2_doc [0, 0])) = None \<and>
   nextSibling gap2_doc [0, 0] FONT_TAG = Some [0, 1] \<and>
   dir_b (mFilePath (copyFont gap2_doc [0, 1])) = Some S_IFDIR \<and>
   nextSibling gap2_doc [0, 1] FONT_TAG = None \<and>
   nextSibling gap2_doc (parent_ptr [0, 1]) FAMILY_TAG = Some [1] \<and>
   firstElement gap2_doc [1] FONT_TAG = None \<and>
   nextSibling gap2_doc [1] FAMILY_TAG = Some [2] \<and>
   firstElement gap2_doc [2] FONT_TAG = Some [2, 0] \<and>
   dir_b (mFilePath (copyFont gap2_doc [2, 0])) = Some S_IFREG \<and>
   ASystemFontIterator_next dir_b
     (Some \<lparr> mXmlDoc = Some gap2_doc, mFontNode = Some [0, 0] \<rparr>) = None"
proof -
  let ?at = "\<lambda>p. \<lparr> mXmlDoc = Some gap2_doc, mFontNode = Some p \<rparr>"
  have first: "ASystemFontIterator_next dir_b (Some (ASystemFontIterator_open (Some gap2_doc))) =
     Some (Return (Some (copyFont gap2_doc [0, 0]), ?at [0, 0]))"
    by code_simp
  have fa: "dir_b (mFilePath (copyFont gap2_doc [0, 0])) = None" by code_simp
  have sib: "nextSibling gap2_doc [0, 0] FONT_TAG = Some [0, 1]" by code_simp
  have fb: "dir_b (mFilePath (copyFont gap2_doc [0, 1])) = Some S_IFDIR" by code_simp
  have last: "nextSibling gap2_doc [0, 1] FONT_TAG = None" by code_simp
  have fam: "nextSibling gap2_doc (parent_ptr [0, 1]) FAMILY_TAG = Some [1]" by code_simp
  have empty: "firstElement gap2_doc [1] FONT_TAG = None" by code_simp
  have fam2: "nextSibling gap2_doc [1] FAMILY_TAG = Some [2]" by code_simp
  have third: "firstElement gap2_doc [2] FONT_TAG = Some [2, 0]" by code_simp
  have fc: "dir_b (mFilePath (copyFont gap2_doc [2, 0])) = Some S_IFREG" by code_simp
  have loop: "next_family_loop gap2_doc [0, 0] (nextSibling gap2_doc [0, 0] FONT_TAG) =
              Some (Some [0, 1])"
    by (simp only: sib) (simp add: next_family_loop.simps)
  have discard: "\<not> isFontFileAvailable dir_b (mFilePath (copyFont gap2_doc [0, 1]))"
    by (simp only: isFontFileAvailable_regular fb) simp
  have "ASystemFontIterator_next dir_b (Some (?at [0, 0])) =
        ASystemFontIterator_next dir_b (Some (?at [0, 1]))"
    using next_at_node [of "?at [0, 0]" "[0, 0]" gap2_doc "[0, 1]" dir_b] loop discard
    by simp
  also have "\<dots> = None"
  proof (rule next_at_node_never)
    show "mFontNode (?at [0, 1]) = Some [0, 1]" by simp
    show "mXmlDoc (?at [0, 1]) = Some gap2_doc" by simp
    show "next_family_loop gap2_doc [0, 1] (nextSibling gap2_doc [0, 1] FONT_TAG) = None"
      by (simp only: last next_family_loop_diverges [OF fam empty])
  qed
  finally have never: "ASystemFontIterator_next dir_b (Some (?at [0, 0])) = None" .
  from first fa sib fb last fam empty fam2 third fc never show ?thesis by blast
qed

text \<open>
  C7. The exhausted state is terminal. A call that returns no font has released the
  document and cleared the cursor, and every later call, on any file system, returns
  no font at once and leaves the iterator as it is. An iterator opened on a document
  that could not be parsed is in that state from the start: its first call returns
  no font.
\<close>

theorem exhausted_is_terminal:
  "(ASystemFontIterator_next fs (Some ite) = Some (Return (None, ite')) \<longrightarrow>
      mXmlDoc ite' = None \<and> mFontNode ite' = None \<and>
      ASystemFontIterator_next fs' (Some ite') = Some (Return (None, ite'))) \<and>
   ASystemFontIterator_next fs (Some (ASystemFontIterator_open None)) =
     Some (Return (None, ASystemFontIterator_open None))"
proof -
  have "ASystemFontIterator_next fs' (Some ite') = Some (Return (None, ite'))"
    if "ASystemFontIterator_next fs (Some ite) = Some (Return (None, ite'))"
    using next_null_exhausted [OF that] by (simp add: next_exhausted)
  moreover have "ASystemFontIterator_next fs (Some (ASystemFontIterator_open None)) =
     Some (Return (None, ASystemFontIterator_open None))"
    by (rule next_exhausted) (simp_all add: ASystemFontIterator_open_def)
  ultimately show ?thesis using next_null_exhausted by blast
qed

text \<open>
  Witness for C7: the call from the last font of the three-font document returns no
  font and leaves the iterator exhausted; the call after it returns no font again.
\<close>

theorem exhausted_is_terminal_witness:
  "ASystemFontIterator_next only_c
     (Some \<lparr> mXmlDoc = Some three_doc, mFontNode = Some [1, 0] \<rparr>) =
     Some (Return (None, \<lparr> mXmlDoc = None, mFontNode = None \<rparr>)) \<and>
   ASystemFontIterator_next only_c (Some \<lparr> mXmlDoc = None, mFontNode = None \<rparr>) =
     Some (Return (None, \<lparr> mXmlDoc = None, mFontNode = None \<rparr>))"
proof -
  have last: "ASystemFontIterator_next only_c
     (Some \<lparr> mXmlDoc = Some three_doc, mFontNode = Some [1, 0] \<rparr>) =
     Some (Return (None, \<lparr> mXmlDoc = None, mFontNode = None \<rparr>))"
    by code_simp
  from exhausted_is_terminal
    [where fs = only_c and fs' = only_c
       and ite = "\<lparr> mXmlDoc = Some three_doc, mFontNode = Some [1, 0] \<rparr>"
       and ite' = "\<lparr> mXmlDoc = None, mFontNode = None \<rparr>",
     THEN conjunct1, rule_format, OF last]
  have "ASystemFontIterator_next only_c (Some \<lparr> mXmlDoc = None, mFontNode = None \<rparr>) =
     Some (Return (None, \<lparr> mXmlDoc = None, mFontNode = None \<rparr>))"
    by blast
  with last show ?thesis by blast
qed

end
